theory Spec2Isabelle
  imports Main "HOL-Library.Word"
begin

section \<open>The range header of httpext (range\_header.go)\<close>

text \<open>
  Go's \<open>int\<close> is taken at its 64-bit width (amd64, arm64): a value is a
  \<open>64 word\<close>, \<open>+\<close> and \<open>-\<close> wrap around, and the comparisons of the source
  are the signed ones (\<open>word_sless\<close>, \<open>word_sle\<close>). A Go string is a list
  of bytes, here a \<open>string\<close>.
\<close>

type_synonym go_int = "64 word"

subsection \<open>Errors\<close>

text \<open>
  The four package-level error values, the two kinds of \<open>*strconv.NumError\<close> that
  \<open>strconv.ParseInt\<close> returns (with the text that was being converted), and the error
  that \<open>Format\<close> builds with \<open>fmt.Errorf\<close> from the two flags.
\<close>

datatype numerr = ErrSyntax | ErrRange

datatype error =
    ErrRangeIsSuffix
  | ErrRangeInvalid
  | ErrRangeUnsatisfiableZeroLength
  | ErrRangeOutsideConstraints
  | NumError string numerr
  | ErrorfUnbound bool bool


definition RangeUnconstrained :: go_int where
  "RangeUnconstrained = - 1"

subsection \<open>ContentRange and its mutators\<close>

record ContentRange =
  units :: string
  first :: go_int
  last :: go_int
  fBound :: bool
  lBound :: bool
  total :: go_int
  tBound :: bool

text \<open>The zero value \<open>&ContentRange{}\<close>, and \<open>&ContentRange{units: u}\<close>.\<close>

definition zeroContentRange :: ContentRange where
  "zeroContentRange =
     \<lparr>units = [], first = 0, last = 0, fBound = False, lBound = False,
      total = 0, tBound = False\<rparr>"

text \<open>
  A method on \<open>*ContentRange\<close> that returns an \<open>error\<close> takes the receiver and
  returns the receiver as the call leaves it, with the error (\<open>None\<close> is \<open>nil\<close>).
  \<open>SetFirst\<close> compares the fields \<open>c.first\<close> and \<open>c.last\<close>; \<open>SetLast\<close> compares
  its argument with \<open>c.first\<close>.
\<close>

definition SetFirst :: "go_int \<Rightarrow> ContentRange \<Rightarrow> ContentRange \<times> error option" where
  "SetFirst v c =
     (if lBound c \<and> last c \<le>s first c then (c, Some ErrRangeInvalid)
      else (c\<lparr>first := v, fBound := True\<rparr>, None))"

definition SetLast :: "go_int \<Rightarrow> ContentRange \<Rightarrow> ContentRange \<times> error option" where
  "SetLast v c =
     (if fBound c \<and> v <s first c then (c, Some ErrRangeInvalid)
      else (c\<lparr>last := v, lBound := True\<rparr>, None))"

definition NewContentRange ::
  "string \<Rightarrow> go_int \<Rightarrow> go_int \<Rightarrow> ContentRange option \<times> error option" where
  "NewContentRange u f l =
     (case SetFirst f (zeroContentRange\<lparr>units := u\<rparr>) of
        (c1, Some e) \<Rightarrow> (None, Some e)
      | (c1, None) \<Rightarrow>
          (case SetLast l c1 of
             (c2, Some e) \<Rightarrow> (None, Some e)
           | (c2, None) \<Rightarrow> (Some c2, None)))"

definition First :: "ContentRange \<Rightarrow> go_int" where
  "First c = (if \<not> fBound c then RangeUnconstrained else first c)"

definition Last :: "ContentRange \<Rightarrow> go_int" where
  "Last c = (if \<not> lBound c then RangeUnconstrained else last c)"

definition IsSuffix :: "ContentRange \<Rightarrow> bool" where
  "IsSuffix c = (fBound c = False)"

definition IsFixed :: "ContentRange \<Rightarrow> bool" where
  "IsFixed c = (fBound c \<and> lBound c)"

definition IsUnbounded :: "ContentRange \<Rightarrow> bool" where
  "IsUnbounded c = (\<not> fBound c \<or> \<not> lBound c)"

definition IsFullRange :: "ContentRange \<Rightarrow> bool" where
  "IsFullRange c = ((fBound c \<and> first c = 0) \<and> \<not> lBound c)"

definition Contains :: "go_int \<Rightarrow> ContentRange \<Rightarrow> bool" where
  "Contains offset c =
     (if offset <s 0 then
        (if \<not> fBound c then False else - offset \<le>s last c)
      else if \<not> fBound c \<or> \<not> lBound c then False
      else (first c \<le>s offset \<and> offset \<le>s last c))"

subsection \<open>Constraint resolution\<close>

text \<open>\<open>sz\<close> is the parameter \<open>size\<close> of the source.\<close>

definition Constrain :: "go_int \<Rightarrow> ContentRange \<Rightarrow> ContentRange \<times> error option" where
  "Constrain sz c =
     (if sz = 0 then
        (if \<not> fBound c then (c\<lparr>last := 0, lBound := True\<rparr>, None)
         else (c, Some ErrRangeUnsatisfiableZeroLength))
      else if \<not> fBound c then
        (let f = sz + last c;
             f' = (if f <s 0 then 0 else f)
         in (c\<lparr>first := f', fBound := True, last := sz - 1, lBound := True\<rparr>, None))
      else if sz - 1 <s first c then (c, Some ErrRangeOutsideConstraints)
      else if \<not> lBound c then (c\<lparr>last := sz - 1, lBound := True\<rparr>, None)
      else (c, None))"

definition Offset :: "ContentRange \<Rightarrow> go_int" where
  "Offset c = first c"

definition Limit :: "ContentRange \<Rightarrow> go_int" where
  "Limit c =
     (if IsFixed c then last c - first c
      else if lBound c \<and> last c <s 0 then - last c
      else RangeUnconstrained)"

definition SetTotal :: "go_int \<Rightarrow> ContentRange \<Rightarrow> ContentRange \<times> error option" where
  "SetTotal t c =
     (case Constrain t c of
        (c1, Some e) \<Rightarrow> (c1, Some e)
      | (c1, None) \<Rightarrow> (c1\<lparr>tBound := True, total := t\<rparr>, None))"

definition Units :: "ContentRange \<Rightarrow> string" where
  "Units c = units c"

subsection \<open>Formatting\<close>

text \<open>
  \<open>strconv.FormatInt(v, 10)\<close> and the verb \<open>%d\<close> of \<open>fmt.Sprintf\<close>: the decimal
  digits of the signed value, with a leading \<open>-\<close> when it is negative. The
  library reads each digit from the constant string \<open>digits\<close>, at an index below 10.
\<close>

definition digits :: string where
  "digits = ''0123456789''"

fun formatNat :: "nat \<Rightarrow> string" where
  "formatNat n =
     (if n < 10 then [digits ! n]
      else formatNat (n div 10) @ [digits ! (n mod 10)])"

declare formatNat.simps [simp del]

definition FormatInt :: "go_int \<Rightarrow> string" where
  "FormatInt v =
     (if sint v < 0 then CHR ''-'' # formatNat (nat (- sint v))
      else formatNat (nat (sint v)))"

text \<open>\<open>mx\<close> is the local \<open>max\<close> of the source.\<close>

definition Format :: "ContentRange \<Rightarrow> string \<times> error option" where
  "Format c =
     (let mx = (if tBound c then FormatInt (total c) else ''*'') in
      if \<not> fBound c \<and> \<not> lBound c then (units c @ '' */'' @ mx, None)
      else if (\<not> fBound c \<and> lBound c) \<or> (fBound c \<and> \<not> lBound c)
        then ([], Some (ErrorfUnbound (fBound c) (lBound c)))
      else (units c @ '' '' @ FormatInt (first c) @ ''-'' @ FormatInt (last c)
              @ ''/'' @ mx, None))"

subsection \<open>Run-time faults\<close>

text \<open>
  Indexing a string outside \<open>0 .. len(s) - 1\<close> and slicing it outside
  \<open>0 .. len(s)\<close> panic in Go. Each such access of the parser goes through one of the
  three functions below, and a function that may panic returns an \<open>option\<close>:
  \<open>None\<close> is the panic.
\<close>

definition index_at :: "string \<Rightarrow> nat \<Rightarrow> char option" where
  "index_at s i = (if i < length s then Some (s ! i) else None)"

definition slice_to :: "string \<Rightarrow> nat \<Rightarrow> string option" where
  "slice_to s j = (if j \<le> length s then Some (take j s) else None)"

definition slice_from :: "string \<Rightarrow> nat \<Rightarrow> string option" where
  "slice_from s i = (if i \<le> length s then Some (drop i s) else None)"

subsection \<open>strconv.ParseInt\<close>

text \<open>
  \<open>strconv.ParseInt(s, 10, 64)\<close> of the Go standard library, which the parser calls:
  an empty text is a syntax error; one leading \<open>+\<close> or \<open>-\<close> is taken off; the rest is
  read by \<open>ParseUint\<close>, left to right, a character that is no decimal digit being a
  syntax error and a value above \<open>2^64 - 1\<close> a range error (with that maximum as the
  value); a magnitude that does not fit 64 signed bits is a range error with the
  nearest bound as the value.
\<close>

definition isDigit :: "char \<Rightarrow> bool" where
  "isDigit ch = (48 \<le> (of_char ch :: nat) \<and> (of_char ch :: nat) \<le> 57)"

definition maxUint64 :: nat where
  "maxUint64 = 2 ^ 64 - 1"

fun ParseUint_loop :: "string \<Rightarrow> nat \<Rightarrow> nat \<times> numerr option" where
  "ParseUint_loop [] n = (n, None)"
| "ParseUint_loop (ch # cs) n =
     (if \<not> isDigit ch then (0, Some ErrSyntax)
      else if maxUint64 < 10 * n + (of_char ch - 48) then (maxUint64, Some ErrRange)
      else ParseUint_loop cs (10 * n + (of_char ch - 48)))"

definition ParseUint :: "string \<Rightarrow> nat \<times> numerr option" where
  "ParseUint s = (if s = [] then (0, Some ErrSyntax) else ParseUint_loop s 0)"

definition ParseInt :: "string \<Rightarrow> go_int \<times> error option" where
  "ParseInt s0 =
     (if s0 = [] then (0, Some (NumError s0 ErrSyntax))
      else
        (let neg = (hd s0 = CHR ''-'');
             s = (if hd s0 = CHR ''+'' \<or> hd s0 = CHR ''-'' then tl s0 else s0)
         in case ParseUint s of
              (un, Some ErrSyntax) \<Rightarrow> (0, Some (NumError s0 ErrSyntax))
            | (un, _) \<Rightarrow>
                if \<not> neg \<and> 2 ^ 63 \<le> un
                  then (word_of_nat (2 ^ 63 - 1), Some (NumError s0 ErrRange))
                else if neg \<and> 2 ^ 63 < un
                  then (- word_of_nat (2 ^ 63), Some (NumError s0 ErrRange))
                else (if neg then - word_of_nat un else word_of_nat un, None)))"

subsection \<open>The parser\<close>

function expectUnitSpecifier_loop :: "string \<Rightarrow> nat \<Rightarrow> (string \<times> string) option" where
  "expectUnitSpecifier_loop s i =
     (if i < length s then
        (case index_at s i of
           None \<Rightarrow> None
         | Some ch \<Rightarrow>
             if ch = CHR ''='' then
               (case slice_to s i of
                  None \<Rightarrow> None
                | Some u \<Rightarrow>
                    (case slice_from s (i + 1) of
                       None \<Rightarrow> None
                     | Some rest \<Rightarrow> Some (u, rest)))
             else expectUnitSpecifier_loop s (i + 1))
      else Some ([], []))"
  by pat_completeness auto
termination
  by (relation "measure (\<lambda>(s, i). length s - i)") auto

declare expectUnitSpecifier_loop.simps [simp del]

definition expectUnitSpecifier :: "string \<Rightarrow> (string \<times> string) option" where
  "expectUnitSpecifier s = expectUnitSpecifier_loop s 0"

function expectRangeValue_loop ::
  "string \<Rightarrow> nat \<Rightarrow> (go_int \<times> string \<times> error option) option" where
  "expectRangeValue_loop s i =
     (if i < length s then
        (case index_at s i of
           None \<Rightarrow> None
         | Some ch \<Rightarrow>
             (let isPastFirstPos = (0 < i);
                  isDigit = isDigit ch;
                  isLastChar = (i + 1 = length s)
              in if isPastFirstPos \<and> \<not> isDigit then
                   (case slice_to s i of
                      None \<Rightarrow> None
                    | Some t \<Rightarrow>
                        (case slice_from s i of
                           None \<Rightarrow> None
                         | Some rest \<Rightarrow>
                             (case ParseInt t of (v, err) \<Rightarrow> Some (v, rest, err))))
                 else if isLastChar then
                   (case slice_to s (i + 1) of
                      None \<Rightarrow> None
                    | Some t \<Rightarrow>
                        (case slice_from s (i + 1) of
                           None \<Rightarrow> None
                         | Some rest \<Rightarrow>
                             (case ParseInt t of (v, err) \<Rightarrow> Some (v, rest, err))))
                 else expectRangeValue_loop s (i + 1)))
      else Some (0, [], Some ErrRangeInvalid))"
  by pat_completeness auto
termination
  by (relation "measure (\<lambda>(s, i). length s - i)") auto

declare expectRangeValue_loop.simps [simp del]

definition expectRangeValue :: "string \<Rightarrow> (go_int \<times> string \<times> error option) option" where
  "expectRangeValue s = expectRangeValue_loop s 0"

definition expectSeparator :: "string \<Rightarrow> char \<Rightarrow> (string \<times> bool) option" where
  "expectSeparator s sep =
     (case index_at s 0 of
        None \<Rightarrow> None
      | Some ch \<Rightarrow>
          if ch = sep then
            (case slice_from s 1 of None \<Rightarrow> None | Some rest \<Rightarrow> Some (rest, True))
          else Some (s, False))"

text \<open>
  \<open>ParseRange\<close> returns the pair \<open>(*ContentRange, error)\<close> of the source, \<open>None\<close>
  standing for \<open>nil\<close> in either place. \<open>parseLast\<close> is its part from the call of
  \<open>expectSeparator\<close> to the end, on the remaining text and the range built so far.
\<close>

definition parseLast ::
  "string \<Rightarrow> ContentRange \<Rightarrow> (ContentRange option \<times> error option) option" where
  "parseLast s0 rng =
     (case expectSeparator s0 (CHR ''-'') of
        None \<Rightarrow> None
      | Some (s1, ok) \<Rightarrow>
          if ok \<and> 0 < length s1 then
            (case expectRangeValue s1 of
               None \<Rightarrow> None
             | Some (l, s2, Some e) \<Rightarrow> Some (None, Some e)
             | Some (l, s2, None) \<Rightarrow>
                 (case SetLast l rng of
                    (rng1, Some e) \<Rightarrow> Some (None, Some e)
                  | (rng1, None) \<Rightarrow>
                      if 0 < length s2 then Some (None, Some ErrRangeInvalid)
                      else Some (Some rng1, None)))
          else if 0 < length s1 then Some (None, Some ErrRangeInvalid)
          else Some (Some rng, None))"

definition ParseRange :: "string \<Rightarrow> (ContentRange option \<times> error option) option" where
  "ParseRange r =
     (case expectUnitSpecifier r of
        None \<Rightarrow> None
      | Some (u, s) \<Rightarrow>
          (case expectRangeValue s of
             None \<Rightarrow> None
           | Some (f, s1, Some e) \<Rightarrow> Some (None, Some e)
           | Some (f, s1, None) \<Rightarrow>
               if f <s 0 then
                 (case SetLast f (zeroContentRange\<lparr>units := u\<rparr>) of
                    (rng, err) \<Rightarrow> Some (Some rng, err))
               else
                 (case SetFirst f (zeroContentRange\<lparr>units := u\<rparr>) of
                    (rng, Some e) \<Rightarrow> Some (None, Some e)
                  | (rng, None) \<Rightarrow>
                      if length s1 = 0 then Some (Some rng, None)
                      else parseLast s1 rng)))"

section \<open>Properties of the mutators and of constraint resolution\<close>

lemma SetFirst_fails_iff:
  "snd (SetFirst v c) = Some ErrRangeInvalid \<longleftrightarrow> lBound c \<and> last c \<le>s first c"
  by (simp add: SetFirst_def)

lemma SetLast_fails_iff:
  "snd (SetLast v c) = Some ErrRangeInvalid \<longleftrightarrow> fBound c \<and> v <s first c"
  by (simp add: SetLast_def)

text \<open>
  Claim C1: for the two calls \<open>SetFirst(a)\<close>, \<open>SetLast(b)\<close> in either order, if both
  succeed the range has \<open>first \<le> last\<close>. The code at the order \<open>SetLast(5)\<close>,
  \<open>SetFirst(10)\<close> on the zero value: both calls return \<open>nil\<close>, and the range is left
  with \<open>first = 10\<close> above \<open>last = 5\<close>. The guard of \<open>SetFirst\<close> reads the field
  \<open>c.first\<close> (still 0), not its argument.
\<close>

theorem SetLast_SetFirst_inverted:
  "SetLast 5 zeroContentRange = (zeroContentRange\<lparr>last := 5, lBound := True\<rparr>, None)
   \<and> SetFirst 10 (zeroContentRange\<lparr>last := 5, lBound := True\<rparr>)
       = (zeroContentRange\<lparr>first := 10, last := 5, fBound := True, lBound := True\<rparr>, None)
   \<and> last (zeroContentRange\<lparr>first := 10, last := 5, fBound := True, lBound := True\<rparr>)
       <s first (zeroContentRange\<lparr>first := 10, last := 5, fBound := True, lBound := True\<rparr>)"
  by (simp add: SetLast_def SetFirst_def zeroContentRange_def word_sle_eq word_sless_alt)

text \<open>
  Claim C4: \<open>SetFirst(value)\<close> fails with \<open>ErrRangeInvalid\<close> exactly when \<open>last\<close> is
  bound and \<open>value\<close> is above it. The code on two ranges with \<open>last = 5\<close> bound:
  \<open>SetFirst(10)\<close> succeeds where the stored \<open>first\<close> is 0, and \<open>SetFirst(3)\<close> is
  rejected where the stored \<open>first\<close> is 10.
\<close>

theorem SetFirst_guard_reads_field:
  "SetFirst 10 \<lparr>units = [], first = 0, last = 5, fBound = False, lBound = True,
                 total = 0, tBound = False\<rparr>
     = (\<lparr>units = [], first = 10, last = 5, fBound = True, lBound = True,
          total = 0, tBound = False\<rparr>, None)
   \<and> SetFirst 3 \<lparr>units = [], first = 10, last = 5, fBound = True, lBound = True,
                  total = 0, tBound = False\<rparr>
     = (\<lparr>units = [], first = 10, last = 5, fBound = True, lBound = True,
          total = 0, tBound = False\<rparr>, Some ErrRangeInvalid)"
  by (simp add: SetFirst_def word_sle_eq)

text \<open>
  The branches of \<open>Constrain\<close> for a size other than 0 leave both bounds set when they
  succeed, and so does \<open>SetTotal\<close> for a total other than 0; with size 0 a range whose
  \<open>first\<close> is bound is refused.
\<close>

lemma Constrain_nonzero_binds_both:
  "sz \<noteq> 0 \<Longrightarrow> Constrain sz c = (c', None) \<Longrightarrow> fBound c' \<and> lBound c'"
  by (auto simp: Constrain_def Let_def split: if_splits)

lemma SetTotal_nonzero_binds_both:
  "t \<noteq> 0 \<Longrightarrow> SetTotal t c = (c', None) \<Longrightarrow> tBound c' \<and> fBound c' \<and> lBound c'"
  by (auto simp: SetTotal_def Constrain_def Let_def split: if_splits)

lemma Constrain_zero_first_bound:
  "fBound c \<Longrightarrow> Constrain 0 c = (c, Some ErrRangeUnsatisfiableZeroLength)"
  by (simp add: Constrain_def)

text \<open>
  Claim C2: \<open>Constrain(0)\<close> on a suffix range succeeds with \<open>last = 0\<close> bound, and
  \<open>Limit()\<close> is then 0. The code at the suffix range of \<open>resources=-100\<close>:
  \<open>Constrain(0)\<close> succeeds and binds \<open>last = 0\<close>, but it leaves \<open>first\<close> unbound, so
  that \<open>Limit()\<close> returns \<open>RangeUnconstrained\<close> (-1), not 0.
\<close>

theorem Constrain_zero_suffix_Limit:
  "Constrain 0 \<lparr>units = ''resources'', first = 0, last = - 100, fBound = False,
                  lBound = True, total = 0, tBound = False\<rparr>
     = (\<lparr>units = ''resources'', first = 0, last = 0, fBound = False,
          lBound = True, total = 0, tBound = False\<rparr>, None)
   \<and> Limit \<lparr>units = ''resources'', first = 0, last = 0, fBound = False,
             lBound = True, total = 0, tBound = False\<rparr> = - 1
   \<and> Limit \<lparr>units = ''resources'', first = 0, last = 0, fBound = False,
             lBound = True, total = 0, tBound = False\<rparr> \<noteq> 0"
  by (simp add: Constrain_def Limit_def IsFixed_def RangeUnconstrained_def)

text \<open>
  Claim C3: after a successful \<open>SetTotal\<close> both \<open>first\<close> and \<open>last\<close> are bound. The
  code at \<open>total = 0\<close> and the suffix range of \<open>resources=-100\<close>: \<open>SetTotal(0)\<close>
  succeeds and sets \<open>tBound\<close> with \<open>first\<close> not bound, a range that \<open>Format\<close> then
  refuses with its error for a bound that is missing.
\<close>

theorem SetTotal_zero_suffix_half_bound:
  "SetTotal 0 \<lparr>units = ''resources'', first = 0, last = - 100, fBound = False,
                 lBound = True, total = 0, tBound = False\<rparr>
     = (\<lparr>units = ''resources'', first = 0, last = 0, fBound = False,
          lBound = True, total = 0, tBound = True\<rparr>, None)
   \<and> tBound \<lparr>units = ''resources'', first = 0, last = 0, fBound = False,
             lBound = True, total = 0, tBound = True\<rparr>
   \<and> \<not> fBound \<lparr>units = ''resources'', first = 0, last = 0, fBound = False,
             lBound = True, total = 0, tBound = True\<rparr>
   \<and> Format \<lparr>units = ''resources'', first = 0, last = 0, fBound = False,
             lBound = True, total = 0, tBound = True\<rparr>
     = ([], Some (ErrorfUnbound False True))"
  by (simp add: SetTotal_def Constrain_def Format_def)

section \<open>Properties of the parser\<close>

subsection \<open>The two scanning loops\<close>

text \<open>
  One turn of each loop, with the index and slice checks discharged by the loop
  condition \<open>i < len(s)\<close>, and the exit of each loop.
\<close>

lemma expectUnitSpecifier_loop_step:
  "i < length s \<Longrightarrow>
   expectUnitSpecifier_loop s i =
     (if s ! i = CHR ''='' then Some (take i s, drop (i + 1) s)
      else expectUnitSpecifier_loop s (i + 1))"
  by (subst expectUnitSpecifier_loop.simps)
     (simp add: index_at_def slice_to_def slice_from_def)

lemma expectUnitSpecifier_loop_end:
  "\<not> i < length s \<Longrightarrow> expectUnitSpecifier_loop s i = Some ([], [])"
  by (subst expectUnitSpecifier_loop.simps) simp

lemma expectUnitSpecifier_loop_returns:
  "\<exists>u rest. expectUnitSpecifier_loop s i = Some (u, rest)"
proof (induction "length s - i" arbitrary: i)
  case 0
  then show ?case by (simp add: expectUnitSpecifier_loop_end)
next
  case (Suc n)
  then have lt: "i < length s" and n: "n = length s - (i + 1)" by simp_all
  from Suc.hyps(1) [OF n] show ?case
    by (subst expectUnitSpecifier_loop_step [OF lt]) auto
qed

lemma expectUnitSpecifier_loop_no_equals:
  "CHR ''='' \<notin> set s \<Longrightarrow> expectUnitSpecifier_loop s i = Some ([], [])"
proof (induction "length s - i" arbitrary: i)
  case 0
  then show ?case by (simp add: expectUnitSpecifier_loop_end)
next
  case (Suc n)
  then have lt: "i < length s" and n: "n = length s - (i + 1)" by simp_all
  from lt Suc.prems have ne: "s ! i \<noteq> CHR ''=''"
    using nth_mem by metis
  from Suc.hyps(1) [OF n Suc.prems] ne show ?case
    by (subst expectUnitSpecifier_loop_step [OF lt]) simp
qed



lemma expectRangeValue_loop_step:
  "i < length s \<Longrightarrow>
   expectRangeValue_loop s i =
     (if 0 < i \<and> \<not> isDigit (s ! i)
        then (case ParseInt (take i s) of (v, err) \<Rightarrow> Some (v, drop i s, err))
      else if i + 1 = length s
        then (case ParseInt (take (i + 1) s) of (v, err) \<Rightarrow> Some (v, drop (i + 1) s, err))
      else expectRangeValue_loop s (i + 1))"
  by (subst expectRangeValue_loop.simps)
     (simp add: index_at_def slice_to_def slice_from_def Let_def)

lemma expectRangeValue_loop_end:
  "\<not> i < length s \<Longrightarrow> expectRangeValue_loop s i = Some (0, [], Some ErrRangeInvalid)"
  by (subst expectRangeValue_loop.simps) simp

lemma expectRangeValue_loop_returns:
  "\<exists>v rest e. expectRangeValue_loop s i = Some (v, rest, e)"
proof (induction "length s - i" arbitrary: i)
  case 0
  then show ?case by (simp add: expectRangeValue_loop_end)
next
  case (Suc n)
  then have lt: "i < length s" and n: "n = length s - (i + 1)" by simp_all
  from Suc.hyps(1) [OF n] show ?case
    by (subst expectRangeValue_loop_step [OF lt]) (auto split: prod.split)
qed

text \<open>
  An error of the value scan is \<open>ErrRangeInvalid\<close> or the very error that a call of
  \<open>ParseInt\<close> returned.
\<close>

lemma expectRangeValue_loop_error:
  "expectRangeValue_loop s i = Some (v, rest, Some e) \<Longrightarrow>
     e = ErrRangeInvalid \<or> (\<exists>t w. ParseInt t = (w, Some e))"
proof (induction "length s - i" arbitrary: i)
  case 0
  then show ?case by (simp add: expectRangeValue_loop_end)
next
  case (Suc n)
  then have lt: "i < length s" and n: "n = length s - (i + 1)" by simp_all
  from Suc.prems have
    "(if 0 < i \<and> \<not> isDigit (s ! i)
        then (case ParseInt (take i s) of (v, err) \<Rightarrow> Some (v, drop i s, err))
      else if i + 1 = length s
        then (case ParseInt (take (i + 1) s) of (v, err) \<Rightarrow> Some (v, drop (i + 1) s, err))
      else expectRangeValue_loop s (i + 1)) = Some (v, rest, Some e)"
    by (simp only: expectRangeValue_loop_step [OF lt])
  with Suc.hyps(1) [OF n] show ?case
    by (auto split: if_splits prod.splits)
qed

subsection \<open>No access out of bounds\<close>

lemma expectUnitSpecifier_returns: "\<exists>u rest. expectUnitSpecifier s = Some (u, rest)"
  by (simp add: expectUnitSpecifier_def expectUnitSpecifier_loop_returns)

lemma expectRangeValue_returns: "\<exists>v rest e. expectRangeValue s = Some (v, rest, e)"
  by (simp add: expectRangeValue_def expectRangeValue_loop_returns)

lemma expectRangeValue_error:
  "expectRangeValue s = Some (v, rest, Some e) \<Longrightarrow>
     e = ErrRangeInvalid \<or> (\<exists>t w. ParseInt t = (w, Some e))"
  unfolding expectRangeValue_def by (rule expectRangeValue_loop_error)

lemma expectSeparator_returns:
  "s \<noteq> [] \<Longrightarrow> \<exists>rest found. expectSeparator s sep = Some (rest, found)"
  by (cases s) (auto simp: expectSeparator_def index_at_def slice_from_def)

lemma parseLast_returns:
  assumes "s \<noteq> []"
  shows "\<exists>rng e. parseLast s c = Some (rng, e) \<and> (rng = None) = (e \<noteq> None)
           \<and> (\<forall>x. e = Some x \<longrightarrow> x = ErrRangeInvalid \<or> (\<exists>t w. ParseInt t = (w, Some x)))
           \<and> (\<forall>c'. rng = Some c' \<longrightarrow> fBound c' = fBound c \<and> first c' = first c)"
proof -
  from expectSeparator_returns [OF assms] obtain s1 ok
    where sep: "expectSeparator s (CHR ''-'') = Some (s1, ok)" by blast
  show ?thesis
  proof (cases "ok \<and> 0 < length s1")
    case False
    with sep show ?thesis by (auto simp: parseLast_def)
  next
    case True
    from expectRangeValue_returns obtain l s2 e2
      where rv: "expectRangeValue s1 = Some (l, s2, e2)" by blast
    show ?thesis
    proof (cases e2)
      case (Some x)
      with rv expectRangeValue_error [of s1 l s2 x] sep True show ?thesis
        by (auto simp: parseLast_def)
    next
      case None
      with rv sep True show ?thesis
        by (auto simp: parseLast_def SetLast_def split: if_splits)
    qed
  qed
qed

lemma ParseRange_returns:
  "\<exists>rng e. ParseRange r = Some (rng, e) \<and> (rng = None) = (e \<noteq> None)
           \<and> (\<forall>x. e = Some x \<longrightarrow> x = ErrRangeInvalid \<or> (\<exists>t w. ParseInt t = (w, Some x)))
           \<and> (\<forall>c'. rng = Some c' \<longrightarrow> \<not> fBound c' \<longrightarrow> first c' = 0)"
proof -
  from expectUnitSpecifier_returns obtain u s
    where us: "expectUnitSpecifier r = Some (u, s)" by blast
  from expectRangeValue_returns obtain f s1 e1
    where rv: "expectRangeValue s = Some (f, s1, e1)" by blast
  show ?thesis
  proof (cases e1)
    case (Some x)
    with us rv expectRangeValue_error [of s f s1 x] show ?thesis
      by (auto simp: ParseRange_def)
  next
    case None
    show ?thesis
    proof (cases "f <s 0")
      case True
      with None us rv show ?thesis
        by (simp add: ParseRange_def SetLast_def zeroContentRange_def)
    next
      case False
      show ?thesis
      proof (cases "s1 = []")
        case True
        with False None us rv show ?thesis
          by (simp add: ParseRange_def SetFirst_def zeroContentRange_def)
      next
        case ne: False
        from parseLast_returns [OF ne, of "zeroContentRange\<lparr>units := u, first := f, fBound := True\<rparr>"]
        show ?thesis using False None us rv ne
          by (auto simp: ParseRange_def SetFirst_def zeroContentRange_def)
      qed
    qed
  qed
qed


section \<open>Idempotence of constraint resolution\<close>








section \<open>The parser on concrete headers\<close>

text \<open>The equations that evaluate the parser and the formatter on a given text.\<close>

lemmas parser_eval =
  ParseRange_def parseLast_def expectSeparator_def
  expectUnitSpecifier_def expectUnitSpecifier_loop_step expectUnitSpecifier_loop_end
  expectRangeValue_def expectRangeValue_loop_step expectRangeValue_loop_end
  ParseInt_def ParseUint_def isDigit_def maxUint64_def Let_def
  index_at_def slice_from_def slice_to_def
  SetFirst_def SetLast_def zeroContentRange_def word_sless_alt word_sle_eq

lemmas format_eval = Format_def FormatInt_def formatNat.simps digits_def

text \<open>
  Claim C5: \<open>ParseRange("resources=-100")\<close> then \<open>SetTotal(200)\<close> succeeds and
  \<open>Format()\<close> gives \<open>resources 100-199/200\<close> (the start is \<open>size + last\<close>, the end
  \<open>size - 1\<close>); \<open>ParseRange("resources=100-")\<close> then \<open>SetTotal(300)\<close> succeeds and
  \<open>Format()\<close> gives \<open>resources 100-299/300\<close>.
\<close>

theorem unbound_forms_resolve_against_total:
  "ParseRange ''resources=-100''
     = Some (Some \<lparr>units = ''resources'', first = 0, last = - 100, fBound = False,
                     lBound = True, total = 0, tBound = False\<rparr>, None)
   \<and> SetTotal 200 \<lparr>units = ''resources'', first = 0, last = - 100, fBound = False,
                     lBound = True, total = 0, tBound = False\<rparr>
     = (\<lparr>units = ''resources'', first = 200 + (- 100), last = 200 - 1, fBound = True,
          lBound = True, total = 200, tBound = True\<rparr>, None)
   \<and> Format \<lparr>units = ''resources'', first = 200 + (- 100), last = 200 - 1, fBound = True,
          lBound = True, total = 200, tBound = True\<rparr>
     = (''resources 100-199/200'', None)
   \<and> ParseRange ''resources=100-''
     = Some (Some \<lparr>units = ''resources'', first = 100, last = 0, fBound = True,
                     lBound = False, total = 0, tBound = False\<rparr>, None)
   \<and> SetTotal 300 \<lparr>units = ''resources'', first = 100, last = 0, fBound = True,
                     lBound = False, total = 0, tBound = False\<rparr>
     = (\<lparr>units = ''resources'', first = 100, last = 300 - 1, fBound = True,
          lBound = True, total = 300, tBound = True\<rparr>, None)
   \<and> Format \<lparr>units = ''resources'', first = 100, last = 300 - 1, fBound = True,
          lBound = True, total = 300, tBound = True\<rparr>
     = (''resources 100-299/300'', None)"
proof (intro conjI)
  show "ParseRange ''resources=-100''
     = Some (Some \<lparr>units = ''resources'', first = 0, last = - 100, fBound = False,
                     lBound = True, total = 0, tBound = False\<rparr>, None)"
    by (simp add: parser_eval)
  show "SetTotal 200 \<lparr>units = ''resources'', first = 0, last = - 100, fBound = False,
                     lBound = True, total = 0, tBound = False\<rparr>
     = (\<lparr>units = ''resources'', first = 200 + (- 100), last = 200 - 1, fBound = True,
          lBound = True, total = 200, tBound = True\<rparr>, None)"
    by (simp add: SetTotal_def Constrain_def Let_def word_sless_alt)
  show "Format \<lparr>units = ''resources'', first = 200 + (- 100), last = 200 - 1, fBound = True,
          lBound = True, total = 200, tBound = True\<rparr>
     = (''resources 100-199/200'', None)"
    by (simp add: format_eval)
  show "ParseRange ''resources=100-''
     = Some (Some \<lparr>units = ''resources'', first = 100, last = 0, fBound = True,
                     lBound = False, total = 0, tBound = False\<rparr>, None)"
    by (simp add: parser_eval)
  show "SetTotal 300 \<lparr>units = ''resources'', first = 100, last = 0, fBound = True,
                     lBound = False, total = 0, tBound = False\<rparr>
     = (\<lparr>units = ''resources'', first = 100, last = 300 - 1, fBound = True,
          lBound = True, total = 300, tBound = True\<rparr>, None)"
    by (simp add: SetTotal_def Constrain_def Let_def word_sless_alt)
  show "Format \<lparr>units = ''resources'', first = 100, last = 300 - 1, fBound = True,
          lBound = True, total = 300, tBound = True\<rparr>
     = (''resources 100-299/300'', None)"
    by (simp add: format_eval)
qed

text \<open>
  Claim C6, as the claim states it, at the suffix range that
  \<open>ParseRange("resources=-100")\<close> returns: \<open>first\<close> is not bound and \<open>Offset()\<close> is
  0, not \<open>RangeUnconstrained\<close>.
\<close>

theorem Offset_unbound_first_counterexample:
  "ParseRange ''resources=-100''
     = Some (Some \<lparr>units = ''resources'', first = 0, last = - 100, fBound = False,
                     lBound = True, total = 0, tBound = False\<rparr>, None)
   \<and> \<not> fBound \<lparr>units = ''resources'', first = 0, last = - 100, fBound = False,
                     lBound = True, total = 0, tBound = False\<rparr>
   \<and> Offset \<lparr>units = ''resources'', first = 0, last = - 100, fBound = False,
                     lBound = True, total = 0, tBound = False\<rparr> = 0
   \<and> Offset \<lparr>units = ''resources'', first = 0, last = - 100, fBound = False,
                     lBound = True, total = 0, tBound = False\<rparr> \<noteq> RangeUnconstrained"
proof -
  have "ParseRange ''resources=-100''
     = Some (Some \<lparr>units = ''resources'', first = 0, last = - 100, fBound = False,
                     lBound = True, total = 0, tBound = False\<rparr>, None)"
    by (simp add: parser_eval)
  then show ?thesis by (simp add: Offset_def RangeUnconstrained_def)
qed

text \<open>
  Claim C6, amended: \<open>Offset()\<close> returns the field \<open>first\<close> whether or not it is
  bound; on a range that \<open>ParseRange\<close> returns with \<open>first\<close> unbound that is 0.
\<close>

theorem Offset_returns_stored_first:
  "Offset c = first c
   \<and> (ParseRange r = Some (Some c', e) \<and> \<not> fBound c' \<longrightarrow> Offset c' = 0)"
  using ParseRange_returns [of r] by (auto simp: Offset_def)

theorem Offset_returns_stored_first_witness:
  "Offset \<lparr>units = ''resources'', first = 100, last = 0, fBound = True,
            lBound = False, total = 0, tBound = False\<rparr> = 100
   \<and> Offset \<lparr>units = ''resources'', first = 0, last = - 100, fBound = False,
                     lBound = True, total = 0, tBound = False\<rparr> = 0"
proof -
  let ?a = "\<lparr>units = ''resources'', first = 0, last = - 100, fBound = False,
                    lBound = True, total = 0, tBound = False\<rparr> :: ContentRange"
  let ?b = "\<lparr>units = ''resources'', first = 100, last = 0, fBound = True,
            lBound = False, total = 0, tBound = False\<rparr> :: ContentRange"
  have p: "ParseRange ''resources=-100'' = Some (Some ?a, None)" by (simp add: parser_eval)
  from Offset_returns_stored_first [of ?b "''resources=-100''" ?a None] p
  show ?thesis by simp
qed




text \<open>
  Claim C8: on a text with no \<open>=\<close>, \<open>ParseRange\<close> fails with \<open>ErrRangeInvalid\<close> and
  returns no range.
\<close>

theorem ParseRange_no_equals:
  assumes "CHR ''='' \<notin> set r"
  shows "ParseRange r = Some (None, Some ErrRangeInvalid)"
proof -
  from assms have "expectUnitSpecifier r = Some ([], [])"
    by (simp add: expectUnitSpecifier_def expectUnitSpecifier_loop_no_equals)
  moreover have "expectRangeValue [] = Some (0, [], Some ErrRangeInvalid)"
    by (simp add: expectRangeValue_def expectRangeValue_loop_end)
  ultimately show ?thesis by (simp add: ParseRange_def)
qed

theorem ParseRange_no_equals_witness:
  "CHR ''='' \<notin> set ''bytes 0-99'' \<and> ParseRange ''bytes 0-99'' = Some (None, Some ErrRangeInvalid)"
proof -
  have h: "CHR ''='' \<notin> set ''bytes 0-99''" by simp
  from ParseRange_no_equals [OF h] h show ?thesis by simp
qed

text \<open>
  Claim C10: on every text \<open>ParseRange\<close> returns without a fault (no index or slice
  out of bounds, the \<open>s[0]\<close> of \<open>expectSeparator\<close> included), and it returns either a
  range or an error.
\<close>

theorem ParseRange_total:
  "\<exists>rng e. ParseRange r = Some (rng, e) \<and> (rng = None) = (e \<noteq> None)"
  using ParseRange_returns [of r] by blast

theorem ParseRange_total_witness:
  "(\<exists>rng e. ParseRange [] = Some (rng, e) \<and> (rng = None) = (e \<noteq> None))
   \<and> (\<exists>rng e. ParseRange ''bytes=abc'' = Some (rng, e) \<and> (rng = None) = (e \<noteq> None))
   \<and> (\<exists>rng e. ParseRange ''bytes='' = Some (rng, e) \<and> (rng = None) = (e \<noteq> None))"
  using ParseRange_total [of "[]"] ParseRange_total [of "''bytes=abc''"]
        ParseRange_total [of "''bytes=''"]
  by simp

text \<open>What the parser returns on the empty text and on malformed values.\<close>

lemma ParseRange_edge_inputs:
  "ParseRange [] = Some (None, Some ErrRangeInvalid)
   \<and> ParseRange ''bytes=abc'' = Some (None, Some (NumError ''a'' ErrSyntax))
   \<and> ParseRange ''bytes='' = Some (None, Some ErrRangeInvalid)
   \<and> ParseRange ''bytes=5-'' = Some (Some \<lparr>units = ''bytes'', first = 5, last = 0,
        fBound = True, lBound = False, total = 0, tBound = False\<rparr>, None)
   \<and> ParseRange ''bytes=5x'' = Some (None, Some ErrRangeInvalid)"
  by (simp add: parser_eval)

end
